theory Spec2Isabelle
  imports Main "HOL-Library.Word"
begin

section \<open>Byte buffers and the RIFF/WAVE wrapper of the voice service\<close>

text \<open>
  A Node \<open>Buffer\<close> is a sequence of bytes. \<open>Buffer.alloc n\<close> is \<open>n\<close> zero bytes.
  \<open>buf.write(str, off)\<close> copies the (ASCII) characters of \<open>str\<close> to \<open>off\<close>, dropping
  what does not fit. \<open>buf.writeUInt32LE(v, off)\<close> and \<open>buf.writeUInt16LE(v, off)\<close>
  throw a \<open>RangeError\<close> (code \<open>ERR_OUT_OF_RANGE\<close>) when \<open>v\<close> is not in the range of the
  field or the field does not fit into the buffer; otherwise they store the bytes of
  \<open>v\<close>, least significant first. The sample rate is a JavaScript number; the model
  covers the integral ones.
\<close>

type_synonym byte = "8 word"
type_synonym buffer = "byte list"

datatype js_error = ERR_OUT_OF_RANGE | Error string | SyntaxError | ReadError

definition alloc :: "nat \<Rightarrow> buffer" where
  "alloc n = replicate n 0"

fun write_bytes :: "byte list \<Rightarrow> nat \<Rightarrow> buffer \<Rightarrow> buffer" where
  "write_bytes [] off buf = buf"
| "write_bytes (b # bs) off buf = write_bytes bs (Suc off) (buf[off := b])"

definition write_str :: "string \<Rightarrow> nat \<Rightarrow> buffer \<Rightarrow> buffer" where
  "write_str s off buf = write_bytes (map of_char s) off buf"

text \<open>Byte \<open>k\<close> of \<open>v\<close>, counted from the least significant one.\<close>

definition byte_of :: "int \<Rightarrow> nat \<Rightarrow> byte" where
  "byte_of v k = word_of_int (v div 256 ^ k)"

definition writeUInt32LE :: "int \<Rightarrow> nat \<Rightarrow> buffer \<Rightarrow> js_error + buffer" where
  "writeUInt32LE v off buf =
     (if v < 0 \<or> 4294967295 < v then Inl ERR_OUT_OF_RANGE
      else if length buf < off + 4 then Inl ERR_OUT_OF_RANGE
      else Inr (write_bytes
        [byte_of v 0, byte_of v 1, byte_of v 2, byte_of v 3] off buf))"

definition writeUInt16LE :: "int \<Rightarrow> nat \<Rightarrow> buffer \<Rightarrow> js_error + buffer" where
  "writeUInt16LE v off buf =
     (if v < 0 \<or> 65535 < v then Inl ERR_OUT_OF_RANGE
      else if length buf < off + 2 then Inl ERR_OUT_OF_RANGE
      else Inr (write_bytes [byte_of v 0, byte_of v 1] off buf))"

definition readUInt16LE :: "buffer \<Rightarrow> nat \<Rightarrow> int" where
  "readUInt16LE buf off = uint (buf ! off) + 256 * uint (buf ! (off + 1))"

definition readUInt32LE :: "buffer \<Rightarrow> nat \<Rightarrow> int" where
  "readUInt32LE buf off =
     uint (buf ! off) + 256 * uint (buf ! (off + 1)) + 65536 * uint (buf ! (off + 2))
       + 16777216 * uint (buf ! (off + 3))"

text \<open>A statement that throws ends the function: the rest runs on \<open>Inr\<close> only.\<close>

definition and_then :: "'e + 'a \<Rightarrow> ('a \<Rightarrow> 'e + 'b) \<Rightarrow> 'e + 'b" where
  "and_then r f = (case r of Inl e \<Rightarrow> Inl e | Inr x \<Rightarrow> f x)"

text \<open>\<open>VoiceService.wrapLinear16AsWav\<close>, statement by statement.\<close>

definition wrapLinear16AsWav :: "buffer \<Rightarrow> int \<Rightarrow> js_error + buffer" where
  "wrapLinear16AsWav pcmBuffer sampleRate =
     (let channels = 1;
          bitsPerSample = 16;
          byteRate = sampleRate * channels * (bitsPerSample div 8);
          blockAlign = channels * (bitsPerSample div 8);
          header = alloc 44;
          header = write_str ''RIFF'' 0 header
      in and_then (writeUInt32LE (36 + int (length pcmBuffer)) 4 header) (\<lambda>header.
         let header = write_str ''WAVE'' 8 header;
             header = write_str ''fmt '' 12 header
         in and_then (writeUInt32LE 16 16 header) (\<lambda>header.
            and_then (writeUInt16LE 1 20 header) (\<lambda>header.
            and_then (writeUInt16LE channels 22 header) (\<lambda>header.
            and_then (writeUInt32LE sampleRate 24 header) (\<lambda>header.
            and_then (writeUInt32LE byteRate 28 header) (\<lambda>header.
            and_then (writeUInt16LE blockAlign 32 header) (\<lambda>header.
            and_then (writeUInt16LE bitsPerSample 34 header) (\<lambda>header.
            let header = write_str ''data'' 36 header
            in and_then (writeUInt32LE (int (length pcmBuffer)) 40 header) (\<lambda>header.
               Inr (header @ pcmBuffer)))))))))))"

text \<open>The 44 bytes the wrapper writes, for a payload of \<open>len\<close> bytes at \<open>rate\<close> Hz.\<close>

definition wav_header :: "int \<Rightarrow> int \<Rightarrow> buffer" where
  "wav_header len rate =
    [0x52, 0x49, 0x46, 0x46,
     byte_of (36 + len) 0, byte_of (36 + len) 1, byte_of (36 + len) 2, byte_of (36 + len) 3,
     0x57, 0x41, 0x56, 0x45, 0x66, 0x6D, 0x74, 0x20,
     16, 0, 0, 0, 1, 0, 1, 0,
     byte_of rate 0, byte_of rate 1, byte_of rate 2, byte_of rate 3,
     byte_of (rate * 2) 0, byte_of (rate * 2) 1, byte_of (rate * 2) 2, byte_of (rate * 2) 3,
     2, 0, 16, 0,
     0x64, 0x61, 0x74, 0x61,
     byte_of len 0, byte_of len 1, byte_of len 2, byte_of len 3]"

subsection \<open>The header decodes to what was written\<close>

lemma alloc_44:
  "alloc 44 = [0,0,0,0,0,0,0,0,0,0,0,0,0,0,0,0,0,0,0,0,0,0,
               0,0,0,0,0,0,0,0,0,0,0,0,0,0,0,0,0,0,0,0,0,0]"
  by (simp add: alloc_def eval_nat_numeral)

lemma byte_of_small:
  "byte_of 16 0 = 16" "byte_of 16 1 = 0" "byte_of 16 2 = 0" "byte_of 16 3 = 0"
  "byte_of 1 0 = 1" "byte_of 1 1 = 0" "byte_of 2 0 = 2" "byte_of 2 1 = 0"
  "byte_of 16 (Suc 0) = 0" "byte_of 1 (Suc 0) = 0" "byte_of 2 (Suc 0) = 0"
  by (simp_all add: byte_of_def)

lemma wrapLinear16AsWav_explicit:
  assumes "0 \<le> S" "S \<le> 2147483647" "int (length pcm) \<le> 4294967259"
  shows "wrapLinear16AsWav pcm S = Inr (wav_header (int (length pcm)) S @ pcm)"
  using assms
  by (simp add: wrapLinear16AsWav_def alloc_44 write_str_def writeUInt32LE_def
      writeUInt16LE_def and_then_def wav_header_def Let_def byte_of_small)

lemma uint_byte_of: "uint (byte_of v k) = v div 256 ^ k mod 256"
  by (simp add: byte_of_def uint_word_of_int)

lemma le32_roundtrip:
  fixes v :: int
  assumes "0 \<le> v" "v < 4294967296"
  shows "uint (byte_of v 0) + 256 * uint (byte_of v 1) + 65536 * uint (byte_of v 2)
     + 16777216 * uint (byte_of v 3) = v"
proof -
  define a where "a = v div 256"
  define b where "b = a div 256"
  define c where "c = b div 256"
  have b_eq: "v div 65536 = b"
    unfolding a_def b_def using zdiv_zmult2_eq [of 256 v 256] by simp
  have c_eq: "v div 16777216 = c"
    unfolding a_def b_def c_def
    using zdiv_zmult2_eq [of 256 v 256] zdiv_zmult2_eq [of 256 "v div 65536" 256]
      zdiv_zmult2_eq [of 256 v 65536] by simp
  have "c < 256" "0 \<le> c" using assms c_eq by auto
  then have c_mod: "c mod 256 = c" by simp
  have v1: "v = v mod 256 + 256 * a" unfolding a_def by simp
  have a1: "a = a mod 256 + 256 * b" unfolding b_def by simp
  have b1: "b = b mod 256 + 256 * c" unfolding c_def by simp
  have bytes: "uint (byte_of v 0) = v mod 256" "uint (byte_of v 1) = a mod 256"
    "uint (byte_of v 2) = b mod 256" "uint (byte_of v 3) = c"
    using b_eq c_eq c_mod by (simp_all add: uint_byte_of a_def)
  show ?thesis
    unfolding bytes using v1 a1 b1 by linarith
qed

lemma readUInt32LE_header:
  "readUInt32LE (wav_header len rate @ pcm) 4 =
     uint (byte_of (36 + len) 0) + 256 * uint (byte_of (36 + len) 1)
       + 65536 * uint (byte_of (36 + len) 2) + 16777216 * uint (byte_of (36 + len) 3)"
  "readUInt32LE (wav_header len rate @ pcm) 24 =
     uint (byte_of rate 0) + 256 * uint (byte_of rate 1)
       + 65536 * uint (byte_of rate 2) + 16777216 * uint (byte_of rate 3)"
  "readUInt32LE (wav_header len rate @ pcm) 28 =
     uint (byte_of (rate * 2) 0) + 256 * uint (byte_of (rate * 2) 1)
       + 65536 * uint (byte_of (rate * 2) 2) + 16777216 * uint (byte_of (rate * 2) 3)"
  "readUInt32LE (wav_header len rate @ pcm) 40 =
     uint (byte_of len 0) + 256 * uint (byte_of len 1)
       + 65536 * uint (byte_of len 2) + 16777216 * uint (byte_of len 3)"
  by (simp_all add: readUInt32LE_def wav_header_def nth_append)

lemma readUInt16LE_header_fixed:
  "readUInt16LE (wav_header len rate @ pcm) 20 = 1"
  "readUInt16LE (wav_header len rate @ pcm) 22 = 1"
  "readUInt16LE (wav_header len rate @ pcm) 32 = 2"
  "readUInt16LE (wav_header len rate @ pcm) 34 = 16"
  by (simp_all add: readUInt16LE_def wav_header_def nth_append)

lemma wav_header_frame:
  "length (wav_header len rate) = 44"
  "take 4 (wav_header len rate @ pcm) = map of_char ''RIFF''"
  "take 8 (drop 8 (wav_header len rate @ pcm)) = map of_char ''WAVEfmt ''"
  "take 4 (drop 36 (wav_header len rate @ pcm)) = map of_char ''data''"
  by (simp_all add: wav_header_def)

text \<open>
  C4 (as amended). For a PCM buffer of \<open>L\<close> bytes with \<open>36 + L\<close> below \<open>2^32\<close> and an
  integral sample rate \<open>S\<close> with \<open>0 \<le> S\<close> and \<open>S * 2\<close> below \<open>2^32\<close>,
  \<open>wrapLinear16AsWav\<close> returns a buffer of exactly \<open>L + 44\<close> bytes whose header decodes
  to format tag 1 (offset 20), channel count 1 (22), sample rate \<open>S\<close> (24), byte rate
  \<open>S * 2\<close> (28), block align 2 (32), bit depth 16 (34), RIFF chunk size \<open>36 + L\<close> (4)
  and data chunk size \<open>L\<close> (40), with the tags RIFF, WAVE, fmt and data in place,
  followed by the PCM payload unchanged.
\<close>

theorem wrapLinear16AsWav_header:
  assumes "0 \<le> S" "S \<le> 2147483647" "int (length pcm) \<le> 4294967259"
  shows "\<exists>out. wrapLinear16AsWav pcm S = Inr out
           \<and> length out = length pcm + 44
           \<and> readUInt16LE out 20 = 1
           \<and> readUInt16LE out 22 = 1
           \<and> readUInt32LE out 24 = S
           \<and> readUInt32LE out 28 = S * 2
           \<and> readUInt16LE out 32 = 2
           \<and> readUInt16LE out 34 = 16
           \<and> readUInt32LE out 4 = 36 + int (length pcm)
           \<and> readUInt32LE out 40 = int (length pcm)
           \<and> take 4 out = map of_char ''RIFF''
           \<and> take 8 (drop 8 out) = map of_char ''WAVEfmt ''
           \<and> take 4 (drop 36 out) = map of_char ''data''
           \<and> drop 44 out = pcm"
proof -
  let ?out = "wav_header (int (length pcm)) S @ pcm"
  have run: "wrapLinear16AsWav pcm S = Inr ?out"
    using assms by (rule wrapLinear16AsWav_explicit)
  have len: "length ?out = length pcm + 44"
    by (simp add: wav_header_frame(1))
  have payload: "drop 44 ?out = pcm"
    by (simp add: wav_header_frame(1))
  have r24: "readUInt32LE ?out 24 = S"
    unfolding readUInt32LE_header using assms by (intro le32_roundtrip) auto
  have r28: "readUInt32LE ?out 28 = S * 2"
    unfolding readUInt32LE_header using assms by (intro le32_roundtrip) auto
  have r4: "readUInt32LE ?out 4 = 36 + int (length pcm)"
    unfolding readUInt32LE_header using assms by (intro le32_roundtrip) auto
  have r40: "readUInt32LE ?out 40 = int (length pcm)"
    unfolding readUInt32LE_header using assms by (intro le32_roundtrip) auto
  show ?thesis
    by (rule exI [of _ ?out])
      (simp only: run len payload r24 r28 r4 r40 readUInt16LE_header_fixed
        wav_header_frame(2-4) simp_thms)
qed

theorem wrapLinear16AsWav_header_witness:
  "\<exists>out. wrapLinear16AsWav [1, 2, 3, 4] 24000 = Inr out
      \<and> length out = 48
      \<and> readUInt32LE out 24 = 24000
      \<and> readUInt32LE out 28 = 48000
      \<and> readUInt32LE out 4 = 40
      \<and> readUInt32LE out 40 = 4
      \<and> drop 44 out = [1, 2, 3, 4]"
  using wrapLinear16AsWav_header [of 24000 "[1, 2, 3, 4]"] by auto

text \<open>
  The claim as stated, for every sample rate, fails: at \<open>S = 2^31\<close> the byte rate
  \<open>2^32\<close> does not fit the 32-bit field and \<open>writeUInt32LE\<close> throws.
\<close>

theorem wrapLinear16AsWav_rate_counterexample:
  "wrapLinear16AsWav [1, 2, 3, 4] 2147483648 = Inl ERR_OUT_OF_RANGE"
  by (simp add: wrapLinear16AsWav_def alloc_44 write_str_def writeUInt32LE_def
      writeUInt16LE_def and_then_def Let_def)

section \<open>Voice identifier to locale\<close>

text \<open>
  \<open>String.prototype.split\<close> with a one-character separator: the pieces between the
  separators, empty pieces included; a string without the separator is its own single
  piece. \<open>Array.prototype.join\<close> is its inverse. \<open>process.env\<close> maps a variable to its
  value when set, and \<open>a || b\<close> on strings takes \<open>b\<close> when \<open>a\<close> is undefined or empty.
\<close>

fun split_on :: "'a \<Rightarrow> 'a list \<Rightarrow> 'a list list" where
  "split_on sep [] = [[]]"
| "split_on sep (c # cs) =
     (if c = sep then [] # split_on sep cs
      else (case split_on sep cs of
              seg # segs \<Rightarrow> (c # seg) # segs
            | [] \<Rightarrow> [[c]]))"

fun join_with :: "'a \<Rightarrow> 'a list list \<Rightarrow> 'a list" where
  "join_with sep [] = []"
| "join_with sep [s] = s"
| "join_with sep (s # t # ss) = s @ sep # join_with sep (t # ss)"

type_synonym process_env = "string \<Rightarrow> string option"

definition or_else :: "string option \<Rightarrow> string \<Rightarrow> string" where
  "or_else v d = (case v of None \<Rightarrow> d | Some s \<Rightarrow> if s = [] then d else s)"

text \<open>\<open>VoiceService.resolveGoogleLanguageCode\<close>.\<close>

definition resolveGoogleLanguageCode :: "process_env \<Rightarrow> string \<Rightarrow> string" where
  "resolveGoogleLanguageCode env voiceName =
     (let segments = split_on CHR ''-'' voiceName
      in if length segments \<ge> 2 then segments ! 0 @ ''-'' @ segments ! 1
         else or_else (env ''GOOGLE_TTS_LANGUAGE'') ''en-US'')"

subsection \<open>Splitting and joining\<close>

lemma split_on_not_Nil: "split_on sep xs \<noteq> []"
  by (induction xs) (auto split: list.splits)

lemma split_on_no_sep: "sep \<notin> set s \<Longrightarrow> split_on sep s = [s]"
  by (induction s) auto

lemma split_on_segment:
  "sep \<notin> set s \<Longrightarrow> split_on sep (s @ sep # rest) = s # split_on sep rest"
  by (induction s) auto

lemma split_on_join:
  assumes "segs \<noteq> []" "\<forall>s \<in> set segs. sep \<notin> set s"
  shows "split_on sep (join_with sep segs) = segs"
  using assms
proof (induction sep segs rule: join_with.induct)
  case (1 sep)
  then show ?case by simp
next
  case (2 sep s)
  then show ?case by (simp add: split_on_no_sep)
next
  case (3 sep s t ss)
  then show ?case by (simp add: split_on_segment)
qed

lemma join_split_on: "join_with sep (split_on sep xs) = xs"
proof (induction xs)
  case Nil
  then show ?case by simp
next
  case (Cons c cs)
  show ?case
  proof (cases "c = sep")
    case True
    then show ?thesis using Cons split_on_not_Nil [of sep cs]
      by (cases "split_on sep cs") auto
  next
    case False
    obtain seg segs where sp: "split_on sep cs = seg # segs"
      using split_on_not_Nil [of sep cs] by (cases "split_on sep cs") auto
    then show ?thesis using Cons False by (cases segs) auto
  qed
qed

lemma split_on_sep_free: "s \<in> set (split_on sep xs) \<Longrightarrow> sep \<notin> set s"
  by (induction xs arbitrary: s) (auto split: if_splits list.splits)

text \<open>Every string has a decomposition into hyphen-free segments, the one \<open>split\<close> computes.\<close>

lemma segments_exist:
  "join_with CHR ''-'' (split_on CHR ''-'' v) = v \<and> split_on CHR ''-'' v \<noteq> []
     \<and> (\<forall>s \<in> set (split_on CHR ''-'' v). CHR ''-'' \<notin> set s)"
  by (simp add: join_split_on split_on_not_Nil split_on_sep_free)

text \<open>
  C7. For every voice identifier, read as its hyphen-delimited segments \<open>segs\<close> (the
  identifier is \<open>segs\<close> joined by hyphens, no segment holds a hyphen):
  \<open>resolveGoogleLanguageCode\<close> returns the first two segments joined by a hyphen when
  there are at least two, and otherwise the configured default locale
  (\<open>GOOGLE_TTS_LANGUAGE\<close>), or \<open>en-US\<close> when none is configured.
\<close>

theorem resolveGoogleLanguageCode_segments:
  assumes "join_with CHR ''-'' segs = voiceName" "segs \<noteq> []"
    and "\<forall>s \<in> set segs. CHR ''-'' \<notin> set s"
  shows "resolveGoogleLanguageCode env voiceName =
           (if 2 \<le> length segs then segs ! 0 @ ''-'' @ segs ! 1
            else case env ''GOOGLE_TTS_LANGUAGE'' of
                   None \<Rightarrow> ''en-US''
                 | Some l \<Rightarrow> if l = [] then ''en-US'' else l)"
proof -
  have "split_on CHR ''-'' voiceName = segs"
    using assms split_on_join [of segs "CHR ''-''"] by auto
  then show ?thesis
    by (simp add: resolveGoogleLanguageCode_def or_else_def)
qed

theorem resolveGoogleLanguageCode_segments_witness:
  "resolveGoogleLanguageCode Map.empty ''en-US-Neural2-F'' = ''en-US''
   \<and> resolveGoogleLanguageCode [''GOOGLE_TTS_LANGUAGE'' \<mapsto> ''de-DE''] ''solo'' = ''de-DE''
   \<and> resolveGoogleLanguageCode Map.empty ''solo'' = ''en-US''"
  using resolveGoogleLanguageCode_segments [of "[''en'', ''US'', ''Neural2'', ''F'']" "''en-US-Neural2-F''" Map.empty]
    resolveGoogleLanguageCode_segments [of "[''solo'']" "''solo''" "[''GOOGLE_TTS_LANGUAGE'' \<mapsto> ''de-DE'']"]
    resolveGoogleLanguageCode_segments [of "[''solo'']" "''solo''" Map.empty]
  by simp

section \<open>Persisted runtime settings\<close>

text \<open>
  A parsed JSON document, and an object as the map from its property names to their
  values. \<open>JNumber\<close> carries an integral number and \<open>JDecimal m d\<close> the decimal
  fraction \<open>m / 10^d\<close>. The settings file is missing, present but unreadable
  (\<open>readFileSync\<close> throws), or has contents. \<open>JSON.parse\<close> belongs to the runtime: it
  is the parameter \<open>parser\<close>, \<open>None\<close> where it throws a \<open>SyntaxError\<close>.
  Spreading a value into an object literal copies its own enumerable properties: the
  members of an object, the indexed elements of an array or string, nothing otherwise.
\<close>

datatype json =
    JNull
  | JBool bool
  | JNumber int
  | JDecimal int nat
  | JString string
  | JArray "json list"
  | JObject "(string \<times> json) list"

type_synonym js_object = "string \<Rightarrow> json option"

datatype settings_file = Missing | Unreadable | Contents string

definition DEFAULT_SETTINGS :: js_object where
  "DEFAULT_SETTINGS =
     [''chatModelPreset'' \<mapsto> JString ''balanced'',
      ''ttsProvider'' \<mapsto> JString ''openai'',
      ''ttsVoice'' \<mapsto> JString ''alloy'']"

text \<open>The decimal numeral of a number, as array indices turn into property names.\<close>

function show_nat :: "nat \<Rightarrow> string" where
  "show_nat n =
     (if n < 10 then [char_of (48 + n)]
      else show_nat (n div 10) @ [char_of (48 + n mod 10)])"
  by pat_completeness auto
termination
  by (relation "measure id") auto

declare show_nat.simps [simp del]

fun own_properties :: "json \<Rightarrow> (string \<times> json) list" where
  "own_properties (JObject props) = props"
| "own_properties (JArray xs) = zip (map show_nat [0..<length xs]) xs"
| "own_properties (JString s) = zip (map show_nat [0..<length s]) (map (\<lambda>c. JString [c]) s)"
| "own_properties _ = []"

definition spread :: "js_object \<Rightarrow> (string \<times> json) list \<Rightarrow> js_object" where
  "spread obj props = fold (\<lambda>(k, v) m. m(k \<mapsto> v)) props obj"

definition readFileSync :: "settings_file \<Rightarrow> js_error + string" where
  "readFileSync sf =
     (case sf of Contents raw \<Rightarrow> Inr raw | _ \<Rightarrow> Inl ReadError)"

definition existsSync :: "settings_file \<Rightarrow> bool" where
  "existsSync sf = (sf \<noteq> Missing)"

definition JSON_parse :: "(string \<Rightarrow> json option) \<Rightarrow> string \<Rightarrow> js_error + json" where
  "JSON_parse parser raw = (case parser raw of None \<Rightarrow> Inl SyntaxError | Some v \<Rightarrow> Inr v)"

text \<open>
  \<open>loadRuntimeSettings\<close>: \<open>load_try\<close> is the body of the \<open>try\<close> block, and the \<open>catch\<close>
  (which also writes a warning to the console) turns every error into the defaults.
\<close>

definition load_try :: "(string \<Rightarrow> json option) \<Rightarrow> settings_file \<Rightarrow> js_error + js_object" where
  "load_try parser sf =
     (if \<not> existsSync sf then Inr DEFAULT_SETTINGS
      else case readFileSync sf of
             Inl e \<Rightarrow> Inl e
           | Inr raw \<Rightarrow>
               (case JSON_parse parser raw of
                  Inl e \<Rightarrow> Inl e
                | Inr parsed \<Rightarrow> Inr (spread DEFAULT_SETTINGS (own_properties parsed))))"

definition loadRuntimeSettings :: "(string \<Rightarrow> json option) \<Rightarrow> settings_file \<Rightarrow> js_object" where
  "loadRuntimeSettings parser sf =
     (case load_try parser sf of
        Inr settings \<Rightarrow> settings
      | Inl error \<Rightarrow> DEFAULT_SETTINGS)"

definition sample_text :: string where
  "sample_text = ''{'' @ CHR 0x22 # ''ttsVoice'' @ CHR 0x22 # '':'' @ CHR 0x22 # ''sage'' @ CHR 0x22 # ''}''"

definition sample_parser :: "string \<Rightarrow> json option" where
  "sample_parser raw =
     (if raw = sample_text then Some (JObject [(''ttsVoice'', JString ''sage'')]) else None)"

subsection \<open>Defaults on a missing, unreadable or corrupt file\<close>

lemma spread_unchanged: "k \<notin> fst ` set props \<Longrightarrow> spread obj props k = obj k"
  unfolding spread_def
  by (induction props arbitrary: obj) auto

text \<open>
  C9. \<open>loadRuntimeSettings\<close> returns the hard-coded default settings whenever the
  settings file is missing, unreadable, or has contents that do not parse; and a
  setting \<open>k\<close> differs from its default only when the file was read and parsed, and
  the parsed value has a property \<open>k\<close>.
\<close>

theorem loadRuntimeSettings_defaults:
  "(sf = Missing \<or> sf = Unreadable \<or> (\<exists>raw. sf = Contents raw \<and> parser raw = None)
      \<longrightarrow> loadRuntimeSettings parser sf = DEFAULT_SETTINGS)
   \<and> (loadRuntimeSettings parser sf k \<noteq> DEFAULT_SETTINGS k
      \<longrightarrow> (\<exists>raw parsed. sf = Contents raw \<and> parser raw = Some parsed
            \<and> k \<in> fst ` set (own_properties parsed)))"
proof (intro conjI impI)
  assume "sf = Missing \<or> sf = Unreadable \<or> (\<exists>raw. sf = Contents raw \<and> parser raw = None)"
  then show "loadRuntimeSettings parser sf = DEFAULT_SETTINGS"
    by (auto simp: loadRuntimeSettings_def load_try_def existsSync_def readFileSync_def
        JSON_parse_def)
next
  assume changed: "loadRuntimeSettings parser sf k \<noteq> DEFAULT_SETTINGS k"
  show "\<exists>raw parsed. sf = Contents raw \<and> parser raw = Some parsed
            \<and> k \<in> fst ` set (own_properties parsed)"
  proof (cases sf)
    case Missing
    with changed show ?thesis
      by (simp add: loadRuntimeSettings_def load_try_def existsSync_def)
  next
    case Unreadable
    with changed show ?thesis
      by (simp add: loadRuntimeSettings_def load_try_def existsSync_def readFileSync_def)
  next
    case (Contents raw)
    show ?thesis
    proof (cases "parser raw")
      case None
      with changed Contents show ?thesis
        by (simp add: loadRuntimeSettings_def load_try_def existsSync_def readFileSync_def
            JSON_parse_def)
    next
      case (Some parsed)
      with changed Contents
      have "spread DEFAULT_SETTINGS (own_properties parsed) k \<noteq> DEFAULT_SETTINGS k"
        by (simp add: loadRuntimeSettings_def load_try_def existsSync_def readFileSync_def
            JSON_parse_def)
      then have "k \<in> fst ` set (own_properties parsed)"
        using spread_unchanged by metis
      with Contents Some show ?thesis by simp
    qed
  qed
qed

theorem loadRuntimeSettings_defaults_witness:
  "loadRuntimeSettings sample_parser Missing = DEFAULT_SETTINGS
   \<and> loadRuntimeSettings sample_parser Unreadable = DEFAULT_SETTINGS
   \<and> loadRuntimeSettings sample_parser (Contents ''{not json'') = DEFAULT_SETTINGS
   \<and> loadRuntimeSettings sample_parser (Contents sample_text) ''ttsVoice''
       = Some (JString ''sage'')
   \<and> sample_parser sample_text \<noteq> None"
  using loadRuntimeSettings_defaults [of Missing sample_parser]
    loadRuntimeSettings_defaults [of Unreadable sample_parser]
    loadRuntimeSettings_defaults [of "Contents ''{not json''" sample_parser]
    loadRuntimeSettings_defaults [of "Contents sample_text" sample_parser "''ttsVoice''"]
  by (simp add: sample_parser_def sample_text_def loadRuntimeSettings_def load_try_def existsSync_def
      readFileSync_def JSON_parse_def spread_def DEFAULT_SETTINGS_def)

section \<open>The synthesis gateway\<close>

text \<open>
  The fields of \<open>VoiceService\<close> that synthesis reads. The OpenAI client is present or
  \<open>null\<close>; a credential is a string when set. What lies outside the process is the
  \<open>runtime\<close>: the environment variables, \<open>fetch\<close> (which answers a request with a
  response or rejects), the OpenAI SDK's \<open>audio.speech.create\<close> (the bytes of the
  reply, or a rejection) and the base64 decoder of \<open>Buffer.from\<close>. Of a response the
  model keeps what the service reads: \<open>ok\<close>, \<open>status\<close>, the body as text and as bytes,
  and the \<open>audioContent\<close> member of a JSON body when it has one.
\<close>

datatype TTSProvider = openai | elevenlabs | playht | coqui | azure | google

datatype AudioFormat = wav | mp3 | opus

record VoiceService =
  provider :: TTSProvider
  voiceName :: string
  audioFormat :: AudioFormat
  enabled :: bool
  openaiClient :: "string option"
  elevenLabsApiKey :: "string option"
  googleApiKey :: "string option"
  googleSampleRate :: int

record tts_result =
  buffer :: buffer
  format :: AudioFormat

record http_request =
  req_url :: string
  req_headers :: "(string \<times> string) list"
  req_body :: json

record http_response =
  resp_ok :: bool
  resp_status :: nat
  resp_text :: string
  resp_arrayBuffer :: buffer
  resp_audioContent :: "string option"

record speech_request =
  speech_model :: string
  speech_voice :: string
  speech_input :: string
  speech_format :: AudioFormat

record runtime =
  process_env :: process_env
  fetch :: "http_request \<Rightarrow> js_error + http_response"
  speech_create :: "speech_request \<Rightarrow> js_error + buffer"
  base64_decode :: "string \<Rightarrow> buffer"

definition truthy :: "string option \<Rightarrow> bool" where
  "truthy v = (case v of None \<Rightarrow> False | Some s \<Rightarrow> s \<noteq> [])"

definition defaultModel :: string where
  "defaultModel = ''gpt-4o-mini-tts''"

definition isEnabled :: "VoiceService \<Rightarrow> bool" where
  "isEnabled svc =
     (if \<not> enabled svc then False
      else case provider svc of
             openai \<Rightarrow> truthy (openaiClient svc)
           | elevenlabs \<Rightarrow> truthy (elevenLabsApiKey svc)
           | google \<Rightarrow> truthy (googleApiKey svc)
           | _ \<Rightarrow> False)"

definition generateOpenAITTS ::
  "runtime \<Rightarrow> VoiceService \<Rightarrow> string \<Rightarrow> AudioFormat option \<Rightarrow> js_error + tts_result" where
  "generateOpenAITTS rt svc txt formatOverride =
     (if \<not> truthy (openaiClient svc) then Inl (Error ''OpenAI client is not configured.'')
      else
        let fmt = (case formatOverride of Some f \<Rightarrow> f | None \<Rightarrow> audioFormat svc)
        in and_then
             (speech_create rt
                \<lparr>speech_model = defaultModel, speech_voice = voiceName svc,
                 speech_input = txt, speech_format = fmt\<rparr>)
             (\<lambda>arrayBuffer. Inr \<lparr>buffer = arrayBuffer, format = fmt\<rparr>))"

definition elevenLabsRequest :: "string \<Rightarrow> string \<Rightarrow> string \<Rightarrow> http_request" where
  "elevenLabsRequest voiceId apiKey txt =
     \<lparr>req_url = ''https://api.elevenlabs.io/v1/text-to-speech/'' @ voiceId,
      req_headers = [(''xi-api-key'', apiKey), (''Content-Type'', ''application/json'')],
      req_body = JObject
        [(''text'', JString txt),
         (''model_id'', JString ''eleven_monolingual_v1''),
         (''voice_settings'', JObject
            [(''stability'', JDecimal 35 2), (''similarity_boost'', JDecimal 8 1)])]\<rparr>"

definition generateElevenLabsTTS ::
  "runtime \<Rightarrow> VoiceService \<Rightarrow> string \<Rightarrow> js_error + tts_result" where
  "generateElevenLabsTTS rt svc txt =
     (if \<not> truthy (elevenLabsApiKey svc)
      then Inl (Error ''ELEVENLABS_API_KEY environment variable is required for ElevenLabs TTS.'')
      else
        let voiceId = (if voiceName svc = [] then ''21m00Tcm4TlvDq8ikWAM'' else voiceName svc)
        in and_then
             (fetch rt (elevenLabsRequest voiceId (or_else (elevenLabsApiKey svc) []) txt))
             (\<lambda>response.
                if \<not> resp_ok response
                then Inl (Error (''ElevenLabs TTS failed ('' @ show_nat (resp_status response)
                                 @ ''): '' @ resp_text response))
                else Inr \<lparr>buffer = resp_arrayBuffer response, format = mp3\<rparr>))"

datatype google_encoding = LINEAR16 | MP3 | OGG_OPUS

definition mapFormatToGoogleEncoding :: "AudioFormat \<Rightarrow> google_encoding" where
  "mapFormatToGoogleEncoding fmt =
     (case fmt of mp3 \<Rightarrow> MP3 | opus \<Rightarrow> OGG_OPUS | wav \<Rightarrow> LINEAR16)"

definition encoding_name :: "google_encoding \<Rightarrow> string" where
  "encoding_name e = (case e of LINEAR16 \<Rightarrow> ''LINEAR16'' | MP3 \<Rightarrow> ''MP3'' | OGG_OPUS \<Rightarrow> ''OGG_OPUS'')"

definition googleRequest ::
  "string \<Rightarrow> string \<Rightarrow> string \<Rightarrow> string \<Rightarrow> google_encoding \<Rightarrow> int \<Rightarrow> http_request" where
  "googleRequest apiKey txt voice languageCode encoding sampleRate =
     \<lparr>req_url = ''https://texttospeech.googleapis.com/v1/text:synthesize?key='' @ apiKey,
      req_headers = [(''Content-Type'', ''application/json'')],
      req_body = JObject
        [(''input'', JObject [(''text'', JString txt)]),
         (''voice'', JObject [(''name'', JString voice), (''languageCode'', JString languageCode)]),
         (''audioConfig'', JObject
            [(''audioEncoding'', JString (encoding_name encoding)),
             (''sampleRateHertz'', JNumber sampleRate)])]\<rparr>"

definition generateGoogleCloudTTS ::
  "runtime \<Rightarrow> VoiceService \<Rightarrow> string \<Rightarrow> AudioFormat option \<Rightarrow> js_error + tts_result" where
  "generateGoogleCloudTTS rt svc txt formatOverride =
     (if \<not> truthy (googleApiKey svc)
      then Inl (Error ''GOOGLE_TTS_API_KEY environment variable is required for Google Cloud TTS.'')
      else
        let desiredFormat = (case formatOverride of Some f \<Rightarrow> f | None \<Rightarrow> audioFormat svc);
            encoding = mapFormatToGoogleEncoding desiredFormat;
            voice = (if voiceName svc \<noteq> [] then voiceName svc
                     else or_else (process_env rt ''GOOGLE_TTS_VOICE'') ''en-US-Neural2-F'');
            languageCode = resolveGoogleLanguageCode (process_env rt) voice;
            sampleRate = googleSampleRate svc
        in and_then
             (fetch rt (googleRequest (or_else (googleApiKey svc) []) txt voice languageCode
                          encoding sampleRate))
             (\<lambda>response.
                if \<not> resp_ok response
                then Inl (Error (''Google Cloud TTS failed ('' @ show_nat (resp_status response)
                                 @ ''): '' @ resp_text response))
                else if \<not> truthy (resp_audioContent response)
                then Inl (Error ''Google Cloud TTS response did not include audioContent.'')
                else
                  let audioBuffer = base64_decode rt (or_else (resp_audioContent response) [])
                  in if encoding = LINEAR16
                     then and_then (wrapLinear16AsWav audioBuffer sampleRate)
                            (\<lambda>wrapped. Inr \<lparr>buffer = wrapped, format = wav\<rparr>)
                     else if encoding = MP3 then Inr \<lparr>buffer = audioBuffer, format = mp3\<rparr>
                     else Inr \<lparr>buffer = audioBuffer, format = opus\<rparr>))"

definition provider_name :: "TTSProvider \<Rightarrow> string" where
  "provider_name p =
     (case p of openai \<Rightarrow> ''openai'' | elevenlabs \<Rightarrow> ''elevenlabs'' | playht \<Rightarrow> ''playht''
      | coqui \<Rightarrow> ''coqui'' | azure \<Rightarrow> ''azure'' | google \<Rightarrow> ''google'')"

definition synthesizeSpeech ::
  "runtime \<Rightarrow> VoiceService \<Rightarrow> string \<Rightarrow> string option \<Rightarrow> AudioFormat option
     \<Rightarrow> js_error + tts_result" where
  "synthesizeSpeech rt svc txt personality formatOverride =
     (if \<not> isEnabled svc then Inl (Error ''Voice output is disabled.'')
      else case provider svc of
             openai \<Rightarrow> generateOpenAITTS rt svc txt formatOverride
           | elevenlabs \<Rightarrow> generateElevenLabsTTS rt svc txt
           | google \<Rightarrow> generateGoogleCloudTTS rt svc txt formatOverride
           | p \<Rightarrow> Inl (Error (''TTS provider '' @ CHR 0x22 # provider_name p
                              @ CHR 0x22 # '' is not supported yet.'')))"

definition sample_service :: VoiceService where
  "sample_service =
     \<lparr>provider = elevenlabs, voiceName = ''alloy'', audioFormat = wav, enabled = True,
      openaiClient = None, elevenLabsApiKey = Some ''key'', googleApiKey = None,
      googleSampleRate = 24000\<rparr>"

definition sample_runtime :: runtime where
  "sample_runtime =
     \<lparr>process_env = Map.empty,
      fetch = (\<lambda>request. Inr \<lparr>resp_ok = True, resp_status = 200, resp_text = [],
                                resp_arrayBuffer = [0x49, 0x44, 0x33], resp_audioContent = None\<rparr>),
      speech_create = (\<lambda>request. Inl (Error ''unreachable'')),
      base64_decode = (\<lambda>s. [])\<rparr>"

subsection \<open>The fixed-output backend reports its own format\<close>

text \<open>
  C5. With the ElevenLabs backend selected, whatever output format the caller requests
  (none, wav, mp3 or opus) and whatever the configured default format is, every result
  of \<open>synthesizeSpeech\<close> reports format mp3; and a result is returned whenever the
  service is enabled, the credential is set and the backend answers with success.
\<close>

theorem elevenlabs_reports_mp3:
  assumes "provider svc = elevenlabs"
  shows "(\<forall>r. synthesizeSpeech rt svc txt personality formatOverride = Inr r \<longrightarrow> format r = mp3)
    \<and> (enabled svc \<and> truthy (elevenLabsApiKey svc)
         \<and> (\<exists>response. fetch rt
               (elevenLabsRequest
                  (if voiceName svc = [] then ''21m00Tcm4TlvDq8ikWAM'' else voiceName svc)
                  (or_else (elevenLabsApiKey svc) []) txt) = Inr response
               \<and> resp_ok response)
       \<longrightarrow> (\<exists>r. synthesizeSpeech rt svc txt personality formatOverride = Inr r
                \<and> format r = mp3))"
  using assms
  by (auto simp: synthesizeSpeech_def generateElevenLabsTTS_def isEnabled_def and_then_def
      Let_def split: sum.splits if_splits)


theorem elevenlabs_reports_mp3_witness:
  "provider sample_service = elevenlabs
   \<and> synthesizeSpeech sample_runtime sample_service ''hello'' None (Some wav)
       = Inr \<lparr>buffer = [0x49, 0x44, 0x33], format = mp3\<rparr>
   \<and> (\<exists>r. synthesizeSpeech sample_runtime sample_service ''hello'' None (Some opus) = Inr r
          \<and> format r = mp3)"
  using elevenlabs_reports_mp3 [of sample_service sample_runtime "''hello''" None "Some opus"]
  by (simp add: sample_service_def sample_runtime_def synthesizeSpeech_def isEnabled_def
      generateElevenLabsTTS_def truthy_def and_then_def)

section \<open>Sanitizing text for speech\<close>

text \<open>
  A JavaScript string is a sequence of 16-bit code units. With the \<open>u\<close> flag a regular
  expression reads it as code points: a lead surrogate followed by a trail surrogate
  is one code point, every other code unit (an unpaired surrogate too) is a code point
  of its own. The table of the \<open>Extended_Pictographic\<close> property belongs to the
  runtime: it is the parameter \<open>ep\<close>, a predicate on code points.
\<close>

type_synonym code_unit = "16 word"
type_synonym js_string = "code_unit list"

definition is_lead :: "code_unit \<Rightarrow> bool" where
  "is_lead u = (0xD800 \<le> u \<and> u \<le> 0xDBFF)"

definition is_trail :: "code_unit \<Rightarrow> bool" where
  "is_trail u = (0xDC00 \<le> u \<and> u \<le> 0xDFFF)"

definition pair_code_point :: "code_unit \<Rightarrow> code_unit \<Rightarrow> nat" where
  "pair_code_point lead trail = 0x10000 + (unat lead - 0xD800) * 0x400 + (unat trail - 0xDC00)"

fun code_point :: "js_string \<Rightarrow> nat" where
  "code_point [lead, trail] = pair_code_point lead trail"
| "code_point [u] = unat u"
| "code_point _ = 0"

fun code_points :: "js_string \<Rightarrow> js_string list" where
  "code_points [] = []"
| "code_points [u] = [[u]]"
| "code_points (u # v # rest) =
     (if is_lead u \<and> is_trail v then [u, v] # code_points rest
      else [u] # code_points (v # rest))"

text \<open>
  \<open>str.replace(/\\p{Extended_Pictographic}/gu, "")\<close>: the scan goes left to right, one
  code point at a time; a matching code point is dropped, any other is copied.
\<close>

fun replace_pictographic :: "(nat \<Rightarrow> bool) \<Rightarrow> js_string \<Rightarrow> js_string" where
  "replace_pictographic ep [] = []"
| "replace_pictographic ep [u] = (if ep (unat u) then [] else [u])"
| "replace_pictographic ep (u # v # rest) =
     (if is_lead u \<and> is_trail v
      then (if ep (pair_code_point u v) then replace_pictographic ep rest
            else u # v # replace_pictographic ep rest)
      else (if ep (unat u) then replace_pictographic ep (v # rest)
            else u # replace_pictographic ep (v # rest)))"

text \<open>
  \<open>DiscordBot.sanitizeForTTS\<close>. The \<open>catch\<close> branch returns the text as it is; replacing
  in a string with a regular expression literal does not throw, so the branch is dead.
\<close>

definition sanitizeForTTS :: "(nat \<Rightarrow> bool) \<Rightarrow> js_string \<Rightarrow> js_string" where
  "sanitizeForTTS ep str = replace_pictographic ep str"

text \<open>Well-formed UTF-16: every surrogate is half of a pair.\<close>

fun well_formed :: "js_string \<Rightarrow> bool" where
  "well_formed [] = True"
| "well_formed [u] = (\<not> is_lead u \<and> \<not> is_trail u)"
| "well_formed (u # v # rest) =
     (if is_lead u then is_trail v \<and> well_formed rest
      else \<not> is_trail u \<and> well_formed (v # rest))"

text \<open>
  Two code points that carry the property in the Unicode character database:
  U+2764 HEAVY BLACK HEART and U+1F600 GRINNING FACE.
\<close>

definition pictographic_excerpt :: "nat \<Rightarrow> bool" where
  "pictographic_excerpt cp = (cp = 0x2764 \<or> cp = 0x1F600)"

subsection \<open>What the sanitizer removes\<close>

lemma concat_code_points: "concat (code_points str) = str"
  by (induction str rule: code_points.induct) auto

lemma replace_as_filter:
  "replace_pictographic ep str = concat (filter (\<lambda>c. \<not> ep (code_point c)) (code_points str))"
  by (induction ep str rule: replace_pictographic.induct) auto

lemma replace_unchanged:
  "\<forall>c \<in> set (code_points str). \<not> ep (code_point c) \<Longrightarrow> replace_pictographic ep str = str"
  by (simp add: replace_as_filter concat_code_points)

lemma replace_Cons_plain:
  "\<not> is_lead u \<Longrightarrow> replace_pictographic ep (u # rest) =
     (if ep (unat u) then replace_pictographic ep rest else u # replace_pictographic ep rest)"
  by (cases rest) auto

lemma replace_idem_well_formed:
  "well_formed str \<Longrightarrow>
     replace_pictographic ep (replace_pictographic ep str) = replace_pictographic ep str"
proof (induction ep str rule: replace_pictographic.induct)
  case (1 ep)
  then show ?case by simp
next
  case (2 ep u)
  then show ?case by simp
next
  case (3 ep u v rest)
  show ?case
  proof (cases "is_lead u")
    case True
    with 3 show ?thesis by auto
  next
    case False
    with 3 show ?thesis by (auto simp: replace_Cons_plain)
  qed
qed


text \<open>
  C10 (as amended). For every input string, \<open>sanitizeForTTS\<close> removes exactly the code
  points with the \<open>Extended_Pictographic\<close> property and leaves the code units of every
  other code point unchanged and in order; a string with no pictographic code point
  is returned unchanged; and on a well-formed string (no unpaired surrogate) it is
  idempotent.
\<close>

theorem sanitizeForTTS_removes_pictographic:
  "sanitizeForTTS ep str
     = concat (filter (\<lambda>c. \<not> ep (code_point c)) (code_points str))
   \<and> ((\<forall>c \<in> set (code_points str). \<not> ep (code_point c)) \<longrightarrow> sanitizeForTTS ep str = str)
   \<and> (well_formed str \<longrightarrow>
         sanitizeForTTS ep (sanitizeForTTS ep str) = sanitizeForTTS ep str)"
  unfolding sanitizeForTTS_def
  using replace_as_filter [of ep str] replace_unchanged [of str ep]
    replace_idem_well_formed [of str ep]
  by blast

theorem sanitizeForTTS_removes_pictographic_witness:
  "sanitizeForTTS pictographic_excerpt [0x48, 0x69, 0xD83D, 0xDE00, 0x2764, 0x21]
     = [0x48, 0x69, 0x21]
   \<and> well_formed [0x48, 0x69, 0xD83D, 0xDE00, 0x2764, 0x21]
   \<and> sanitizeForTTS pictographic_excerpt
         (sanitizeForTTS pictographic_excerpt [0x48, 0x69, 0xD83D, 0xDE00, 0x2764, 0x21])
       = sanitizeForTTS pictographic_excerpt [0x48, 0x69, 0xD83D, 0xDE00, 0x2764, 0x21]
   \<and> sanitizeForTTS pictographic_excerpt [0x48, 0x69] = [0x48, 0x69]"
  using sanitizeForTTS_removes_pictographic
      [of pictographic_excerpt "[0x48, 0x69, 0xD83D, 0xDE00, 0x2764, 0x21]"]
    sanitizeForTTS_removes_pictographic [of pictographic_excerpt "[0x48, 0x69]"]
  by (simp add: sanitizeForTTS_def pictographic_excerpt_def is_lead_def is_trail_def
      pair_code_point_def)

text \<open>
  The claim as stated, idempotent on every input string, fails on a string with
  unpaired surrogates: when a heart (U+2764) stands between a lead surrogate D83D and
  a trail surrogate DE00, the first pass removes the heart, the two halves then form
  U+1F600, and a second pass removes that.
\<close>

theorem sanitizeForTTS_idempotent_counterexample:
  "sanitizeForTTS pictographic_excerpt [0xD83D, 0x2764, 0xDE00] = [0xD83D, 0xDE00]
   \<and> sanitizeForTTS pictographic_excerpt
         (sanitizeForTTS pictographic_excerpt [0xD83D, 0x2764, 0xDE00]) = []"
  by (simp add: sanitizeForTTS_def pictographic_excerpt_def is_lead_def is_trail_def
      pair_code_point_def)

section \<open>The delivery pipeline\<close>

text \<open>
  The voice library, as far as \<open>playAudioBuffer\<close> uses it. The library tracks at
  most one connection per guild (\<open>getVoiceConnection\<close>); \<open>destroy\<close> throws on a
  connection that is destroyed already, and otherwise untracks the connection when
  it is the tracked one of its guild; \<open>joinVoiceChannel\<close> reconfigures the tracked
  connection of the guild when there is one and creates and tracks a fresh one
  otherwise. Every call to the library is recorded in \<open>events\<close>, in order. What the
  outside decides (whether a wait times out, whether the transcoder starts, whether
  the subscription is granted) is given by \<open>playback_outcomes\<close>, \<open>None\<close> meaning
  success.
\<close>

record connection =
  conn_id :: nat
  joinConfig_guildId :: string
  joinConfig_channelId :: string

datatype wait_target = ConnectionReady nat | PlayerPlaying | PlayerIdle

datatype event =
    Destroy nat
  | Join nat string string
  | EntersState wait_target int
  | CreateAudioPlayer
  | CreateOpusStream
  | Subscribe nat
  | Play buffer
  | PlaySilence "buffer list"
  | Unsubscribe
  | Stop
  | Warn string js_error

record voice_world =
  tracked :: "string \<Rightarrow> connection option"
  destroyed :: "nat list"
  next_conn :: nat
  events :: "event list"

record playback_outcomes =
  ready :: "js_error option"
  transcoder :: "js_error option"
  subscribed :: bool
  playing :: "js_error option"
  idle :: "js_error option"
  silence_resource :: "js_error option"
  silence_playing :: "js_error option"
  silence_idle :: "js_error option"

text \<open>
  Statements run in order on the world; a \<open>throw\<close> skips the rest up to the next
  \<open>catch\<close>, and \<open>finally\<close> runs in both cases.
\<close>

type_synonym 'a action = "voice_world \<Rightarrow> (js_error + 'a) \<times> voice_world"

definition emit :: "event \<Rightarrow> voice_world \<Rightarrow> voice_world" where
  "emit e w = w\<lparr>events := events w @ [e]\<rparr>"

definition ret :: "'a \<Rightarrow> 'a action" where
  "ret x w = (Inr x, w)"

definition raise :: "js_error \<Rightarrow> 'a action" where
  "raise e w = (Inl e, w)"

definition next_do :: "'a action \<Rightarrow> ('a \<Rightarrow> 'b action) \<Rightarrow> 'b action" where
  "next_do m f w = (case m w of (Inl e, w') \<Rightarrow> (Inl e, w') | (Inr x, w') \<Rightarrow> f x w')"

definition try_catch :: "'a action \<Rightarrow> (js_error \<Rightarrow> 'a action) \<Rightarrow> 'a action" where
  "try_catch m h w = (case m w of (Inl e, w') \<Rightarrow> h e w' | (Inr x, w') \<Rightarrow> (Inr x, w'))"

definition try_finally :: "'a action \<Rightarrow> (voice_world \<Rightarrow> voice_world) \<Rightarrow> 'a action" where
  "try_finally m fin w = (case m w of (r, w') \<Rightarrow> (r, fin w'))"

definition outcome :: "event \<Rightarrow> js_error option \<Rightarrow> unit action" where
  "outcome e r w = (case r of None \<Rightarrow> (Inr (), emit e w) | Some err \<Rightarrow> (Inl err, emit e w))"

definition getVoiceConnection :: "string \<Rightarrow> voice_world \<Rightarrow> connection option" where
  "getVoiceConnection g w = tracked w g"

definition destroy :: "connection \<Rightarrow> unit action" where
  "destroy c w =
     (if conn_id c \<in> set (destroyed w)
      then (Inl (Error ''Cannot destroy VoiceConnection - it has already been destroyed''), w)
      else (Inr (),
            emit (Destroy (conn_id c))
              (w\<lparr>tracked := (if tracked w (joinConfig_guildId c) = Some c
                               then (tracked w)(joinConfig_guildId c := None) else tracked w),
                  destroyed := conn_id c # destroyed w\<rparr>)))"

definition joinVoiceChannel :: "string \<Rightarrow> string \<Rightarrow> connection action" where
  "joinVoiceChannel ch g w =
     (case tracked w g of
        Some existing \<Rightarrow>
          (let c = existing\<lparr>joinConfig_channelId := ch\<rparr>
           in (Inr c, emit (Join (conn_id c) g ch) (w\<lparr>tracked := (tracked w)(g \<mapsto> c)\<rparr>)))
      | None \<Rightarrow>
          (let c = \<lparr>conn_id = next_conn w, joinConfig_guildId = g, joinConfig_channelId = ch\<rparr>
           in (Inr c,
               emit (Join (conn_id c) g ch)
                 (w\<lparr>tracked := (tracked w)(g \<mapsto> c), next_conn := Suc (next_conn w)\<rparr>))))"

definition silenceFrame :: buffer where
  "silenceFrame = [0xf8, 0xff, 0xfe]"

definition createSilenceStream :: "nat \<Rightarrow> buffer list" where
  "createSilenceStream frameCount = replicate frameCount silenceFrame"

text \<open>\<open>DiscordBot.flushSilenceFrames\<close>.\<close>

definition flushSilenceFrames :: "playback_outcomes \<Rightarrow> unit action" where
  "flushSilenceFrames oc =
     try_catch
       (next_do (outcome (PlaySilence (createSilenceStream 5)) (silence_resource oc)) (\<lambda>_.
        next_do (outcome (EntersState PlayerPlaying 1000) (silence_playing oc)) (\<lambda>_.
        outcome (EntersState PlayerIdle 2000) (silence_idle oc))))
       (\<lambda>error w. (Inr (), emit (Warn ''Failed to flush silence frames:'' error) w))"

text \<open>
  \<open>DiscordBot.playAudioBuffer\<close>: \<open>connect\<close> is its first part, up to the connection
  the task uses (it runs without suspension); \<open>play_on\<close> is the rest.
\<close>

definition connect :: "string \<Rightarrow> string \<Rightarrow> connection action" where
  "connect g ch =
     (\<lambda>w. case getVoiceConnection g w of
        Some connection \<Rightarrow>
          (if joinConfig_channelId connection \<noteq> ch
           then next_do (destroy connection) (\<lambda>_. joinVoiceChannel ch g) w
           else ret connection w)
      | None \<Rightarrow> joinVoiceChannel ch g w)"

definition play_on :: "playback_outcomes \<Rightarrow> connection \<Rightarrow> buffer \<Rightarrow> unit action" where
  "play_on oc connection audioData =
     next_do (outcome (EntersState (ConnectionReady (conn_id connection)) 30000) (ready oc)) (\<lambda>_.
     next_do (outcome CreateAudioPlayer None) (\<lambda>_.
     next_do (outcome CreateOpusStream (transcoder oc)) (\<lambda>_.
     next_do (outcome (Subscribe (conn_id connection)) None) (\<lambda>_.
     if \<not> subscribed oc
     then next_do (destroy connection) (\<lambda>_.
            raise (Error ''Unable to subscribe audio player to the voice connection.''))
     else
       next_do (outcome (Play audioData) None) (\<lambda>_.
       try_finally
         (next_do (outcome (EntersState PlayerPlaying 5000) (playing oc)) (\<lambda>_.
          next_do (outcome (EntersState PlayerIdle 120000) (idle oc)) (\<lambda>_.
          flushSilenceFrames oc)))
         (\<lambda>w. emit Stop (emit Unsubscribe w)))))))"

definition playAudioBuffer ::
  "playback_outcomes \<Rightarrow> string \<Rightarrow> string \<Rightarrow> buffer \<Rightarrow> unit action" where
  "playAudioBuffer oc g ch audioData =
     next_do (connect g ch) (\<lambda>connection. play_on oc connection audioData)"

definition all_ok :: playback_outcomes where
  "all_ok = \<lparr>ready = None, transcoder = None, subscribed = True, playing = None, idle = None,
     silence_resource = None, silence_playing = None, silence_idle = None\<rparr>"


text \<open>An action only appends events, and every appended event satisfies \<open>P\<close>.\<close>

definition extends :: "'a action \<Rightarrow> (event \<Rightarrow> bool) \<Rightarrow> bool" where
  "extends m P = (\<forall>w. \<exists>rest. events (snd (m w)) = events w @ rest \<and> (\<forall>e \<in> set rest. P e))"

definition is_join :: "event \<Rightarrow> bool" where
  "is_join e = (case e of Join n g ch \<Rightarrow> True | _ \<Rightarrow> False)"

definition is_destroy :: "event \<Rightarrow> bool" where
  "is_destroy e = (case e of Destroy n \<Rightarrow> True | _ \<Rightarrow> False)"

definition sample_world :: voice_world where
  "sample_world =
     \<lparr>tracked = [''guild'' \<mapsto> \<lparr>conn_id = 0, joinConfig_guildId = ''guild'', joinConfig_channelId = ''lobby''\<rparr>],
      destroyed = [], next_conn = 1, events = []\<rparr>"

definition drain_times_out :: playback_outcomes where
  "drain_times_out = all_ok\<lparr>silence_playing := Some (Error ''The operation was aborted'')\<rparr>"

subsection \<open>Events of the pipeline\<close>

lemma events_outcome: "events (snd (outcome e r w)) = events w @ [e]"
  by (simp add: outcome_def emit_def split: option.splits)

lemma extends_outcome: "P e \<Longrightarrow> extends (outcome e r) P"
  by (auto simp: extends_def outcome_def emit_def split: option.splits)

lemma extends_raise: "extends (raise e) P"
  by (simp add: extends_def raise_def)

lemma extends_ret: "extends (ret x) P"
  by (simp add: extends_def ret_def)

lemma extends_next_do:
  assumes "extends m P" "\<And>x. extends (f x) P"
  shows "extends (next_do m f) P"
  unfolding extends_def
proof
  fix w
  obtain r w1 where m: "m w = (r, w1)" by (cases "m w")
  from assms(1) obtain rest1 where r1: "events w1 = events w @ rest1" "\<forall>e \<in> set rest1. P e"
    unfolding extends_def using m by (metis snd_conv)
  show "\<exists>rest. events (snd (next_do m f w)) = events w @ rest \<and> (\<forall>e\<in>set rest. P e)"
  proof (cases r)
    case (Inl e)
    then show ?thesis using m r1 by (auto simp: next_do_def)
  next
    case (Inr x)
    from assms(2) [of x] obtain rest2 where
      r2: "events (snd (f x w1)) = events w1 @ rest2" "\<forall>e \<in> set rest2. P e"
      unfolding extends_def by blast
    then show ?thesis using m r1 Inr by (auto simp: next_do_def)
  qed
qed

lemma extends_try_catch:
  assumes "extends m P" "\<And>e. extends (h e) P"
  shows "extends (try_catch m h) P"
  unfolding extends_def
proof
  fix w
  obtain r w1 where m: "m w = (r, w1)" by (cases "m w")
  from assms(1) obtain rest1 where r1: "events w1 = events w @ rest1" "\<forall>e \<in> set rest1. P e"
    unfolding extends_def using m by (metis snd_conv)
  show "\<exists>rest. events (snd (try_catch m h w)) = events w @ rest \<and> (\<forall>e\<in>set rest. P e)"
  proof (cases r)
    case (Inr x)
    then show ?thesis using m r1 by (auto simp: try_catch_def)
  next
    case (Inl e)
    from assms(2) [of e] obtain rest2 where
      r2: "events (snd (h e w1)) = events w1 @ rest2" "\<forall>e \<in> set rest2. P e"
      unfolding extends_def by blast
    then show ?thesis using m r1 Inl by (auto simp: try_catch_def)
  qed
qed

lemma extends_try_finally:
  assumes "extends m P" "\<And>w. \<exists>rest. events (fin w) = events w @ rest \<and> (\<forall>e \<in> set rest. P e)"
  shows "extends (try_finally m fin) P"
  unfolding extends_def
proof
  fix w
  obtain r w1 where m: "m w = (r, w1)" by (cases "m w")
  from assms(1) obtain rest1 where r1: "events w1 = events w @ rest1" "\<forall>e \<in> set rest1. P e"
    unfolding extends_def using m by (metis snd_conv)
  from assms(2) [of w1] obtain rest2 where
    r2: "events (fin w1) = events w1 @ rest2" "\<forall>e \<in> set rest2. P e" by blast
  show "\<exists>rest. events (snd (try_finally m fin w)) = events w @ rest \<and> (\<forall>e\<in>set rest. P e)"
    using m r1 r2 by (auto simp: try_finally_def)
qed

lemma flushSilenceFrames_succeeds: "fst (flushSilenceFrames oc w) = Inr ()"
  by (simp add: flushSilenceFrames_def try_catch_def next_do_def outcome_def
      split: option.splits sum.splits prod.splits)


lemma extends_if:
  "extends m1 P \<Longrightarrow> extends m2 P \<Longrightarrow> extends (if b then m1 else m2) P"
  by simp

lemma extends_destroy: "(\<And>n. P (Destroy n)) \<Longrightarrow> extends (destroy c) P"
  by (auto simp: extends_def destroy_def emit_def)

lemma extends_flush:
  assumes "\<And>fs. P (PlaySilence fs)" "\<And>t n. P (EntersState t n)" "\<And>m e. P (Warn m e)"
  shows "extends (flushSilenceFrames oc) P"
  unfolding flushSilenceFrames_def
  by (intro extends_try_catch extends_next_do extends_outcome assms)
    (auto simp: extends_def emit_def assms)

lemma next_do_outcome_events:
  assumes "\<And>x. extends (f x) P"
  shows "\<exists>rest. events (snd (next_do (outcome e r) f w)) = events w @ e # rest
           \<and> (\<forall>e' \<in> set rest. P e')"
proof (cases r)
  case None
  from assms [of "()"] obtain rest where
    "events (snd (f () (emit e w))) = events (emit e w) @ rest" "\<forall>e' \<in> set rest. P e'"
    unfolding extends_def by blast
  then show ?thesis using None by (auto simp: next_do_def outcome_def emit_def)
next
  case (Some err)
  then show ?thesis by (simp add: next_do_def outcome_def emit_def)
qed

lemma play_on_events:
  "\<exists>rest. events (snd (play_on oc c audioData w)) =
       events w @ EntersState (ConnectionReady (conn_id c)) 30000 # rest
     \<and> (\<forall>e \<in> set rest. \<not> is_join e \<and> (subscribed oc \<longrightarrow> \<not> is_destroy e))"
proof (cases "subscribed oc")
  case True
  then show ?thesis
    unfolding play_on_def
    by (simp,
        intro next_do_outcome_events extends_next_do extends_outcome extends_try_finally
          extends_flush)
      (auto simp: is_join_def is_destroy_def emit_def)
next
  case False
  then show ?thesis
    unfolding play_on_def
    by (simp,
        intro next_do_outcome_events extends_next_do extends_outcome extends_raise
          extends_destroy)
      (auto simp: is_join_def)
qed

lemma connect_switch:
  assumes "getVoiceConnection g w = Some c" "joinConfig_guildId c = g"
    and "conn_id c \<notin> set (destroyed w)" "joinConfig_channelId c \<noteq> ch"
  shows "\<exists>c' w'. connect g ch w = (Inr c', w')
           \<and> events w' = events w @ [Destroy (conn_id c), Join (next_conn w) g ch]"
  using assms
  by (auto simp: connect_def getVoiceConnection_def next_do_def destroy_def
      joinVoiceChannel_def emit_def Let_def)

lemma connect_reuse:
  assumes "getVoiceConnection g w = Some c" "joinConfig_channelId c = ch"
  shows "connect g ch w = (Inr c, w)"
  using assms by (simp add: connect_def ret_def)

text \<open>
  C6. When the connection tracked for the guild is bound to another channel than the
  requested one, \<open>playAudioBuffer\<close> destroys it and only then joins the requested
  channel: the task's first two effects are the teardown of the old connection and
  the join that builds the new one, in this order, and no other join follows. When
  the tracked connection is bound to the requested channel, the task's first effect
  is the wait for that same connection to be ready: nothing is destroyed or joined
  before it is used, no join happens at all, and no teardown happens either unless
  the subscription fails.
\<close>

theorem channel_switch_destroys_before_join:
  assumes "getVoiceConnection g w = Some c" "joinConfig_guildId c = g"
    and "conn_id c \<notin> set (destroyed w)"
  shows "(joinConfig_channelId c \<noteq> ch \<longrightarrow>
            (\<exists>rest. events (snd (playAudioBuffer oc g ch audioData w)) =
                events w @ Destroy (conn_id c) # Join (next_conn w) g ch # rest
              \<and> (\<forall>e \<in> set rest. \<not> is_join e)))
       \<and> (joinConfig_channelId c = ch \<longrightarrow>
            (\<exists>rest. events (snd (playAudioBuffer oc g ch audioData w)) =
                events w @ EntersState (ConnectionReady (conn_id c)) 30000 # rest
              \<and> (\<forall>e \<in> set rest. \<not> is_join e \<and> (subscribed oc \<longrightarrow> \<not> is_destroy e))))"
proof (intro conjI impI)
  assume "joinConfig_channelId c \<noteq> ch"
  from connect_switch [OF assms this] obtain c' w' where
    c: "connect g ch w = (Inr c', w')"
      "events w' = events w @ [Destroy (conn_id c), Join (next_conn w) g ch]"
    by blast
  from play_on_events [of oc c' audioData w'] obtain rest where
    "events (snd (play_on oc c' audioData w')) =
       events w' @ EntersState (ConnectionReady (conn_id c')) 30000 # rest"
    "\<forall>e \<in> set rest. \<not> is_join e \<and> (subscribed oc \<longrightarrow> \<not> is_destroy e)"
    by blast
  then show "\<exists>rest. events (snd (playAudioBuffer oc g ch audioData w)) =
                events w @ Destroy (conn_id c) # Join (next_conn w) g ch # rest
              \<and> (\<forall>e \<in> set rest. \<not> is_join e)"
    using c by (auto simp: playAudioBuffer_def next_do_def is_join_def)
next
  assume "joinConfig_channelId c = ch"
  then have "connect g ch w = (Inr c, w)"
    using assms(1) by (rule connect_reuse [rotated])
  then show "\<exists>rest. events (snd (playAudioBuffer oc g ch audioData w)) =
                events w @ EntersState (ConnectionReady (conn_id c)) 30000 # rest
              \<and> (\<forall>e \<in> set rest. \<not> is_join e \<and> (subscribed oc \<longrightarrow> \<not> is_destroy e))"
    using play_on_events [of oc c audioData w] by (simp add: playAudioBuffer_def next_do_def)
qed

lemma play_on_result:
  "fst (play_on (oc\<lparr>silence_resource := a, silence_playing := b, silence_idle := c\<rparr>)
          connection audioData w) = fst (play_on oc connection audioData w)"
  by (simp add: play_on_def next_do_def try_finally_def try_catch_def outcome_def raise_def
      flushSilenceFrames_def destroy_def
      split: option.splits sum.splits prod.splits)


lemma play_on_succeeds:
  assumes "ready oc = None" "transcoder oc = None" "subscribed oc" "playing oc = None"
    and "idle oc = None"
  shows "fst (play_on oc connection audioData w) = Inr ()"
  using assms
  by (simp add: play_on_def next_do_def try_finally_def try_catch_def outcome_def
      flushSilenceFrames_def split: option.splits sum.splits prod.splits)

lemma connect_succeeds:
  assumes "\<forall>c. tracked w g = Some c \<longrightarrow> conn_id c \<notin> set (destroyed w)"
  shows "\<exists>c w'. connect g ch w = (Inr c, w')"
  using assms
  by (auto simp: connect_def getVoiceConnection_def next_do_def destroy_def ret_def
      joinVoiceChannel_def Let_def split: option.splits)

lemma flush_warns:
  assumes "silence_resource oc \<noteq> None \<or> silence_playing oc \<noteq> None \<or> silence_idle oc \<noteq> None"
  shows "\<exists>e. Warn ''Failed to flush silence frames:'' e
           \<in> set (events (snd (flushSilenceFrames oc w)))"
  using assms
  by (auto simp: flushSilenceFrames_def try_catch_def next_do_def outcome_def emit_def
      split: option.splits)

text \<open>
  C8. \<open>flushSilenceFrames\<close> never throws: whatever fails while the silence frames are
  played or awaited, it returns normally, and the failure is written to the console
  as a warning. The result of \<open>playAudioBuffer\<close> does not depend on the outcome of the
  drain; so a task whose connection became ready and whose primary content was
  transcoded, subscribed, started and finished succeeds whatever the drain does.
\<close>

theorem drain_failures_swallowed:
  "fst (flushSilenceFrames oc w) = Inr ()
   \<and> (silence_resource oc \<noteq> None \<or> silence_playing oc \<noteq> None \<or> silence_idle oc \<noteq> None
        \<longrightarrow> (\<exists>e. Warn ''Failed to flush silence frames:'' e
                   \<in> set (events (snd (flushSilenceFrames oc w)))))
   \<and> fst (playAudioBuffer (oc\<lparr>silence_resource := a, silence_playing := b, silence_idle := c\<rparr>)
            g ch audioData w)
       = fst (playAudioBuffer oc g ch audioData w)
   \<and> ((\<forall>c. tracked w g = Some c \<longrightarrow> conn_id c \<notin> set (destroyed w))
        \<and> ready oc = None \<and> transcoder oc = None \<and> subscribed oc
        \<and> playing oc = None \<and> idle oc = None
        \<longrightarrow> fst (playAudioBuffer oc g ch audioData w) = Inr ())"
proof (intro conjI impI)
  show "fst (flushSilenceFrames oc w) = Inr ()"
    by (rule flushSilenceFrames_succeeds)
next
  assume "silence_resource oc \<noteq> None \<or> silence_playing oc \<noteq> None \<or> silence_idle oc \<noteq> None"
  then show "\<exists>e. Warn ''Failed to flush silence frames:'' e
                   \<in> set (events (snd (flushSilenceFrames oc w)))"
    by (rule flush_warns)
next
  show "fst (playAudioBuffer (oc\<lparr>silence_resource := a, silence_playing := b, silence_idle := c\<rparr>)
            g ch audioData w)
       = fst (playAudioBuffer oc g ch audioData w)"
    by (cases "connect g ch w") (auto simp: playAudioBuffer_def next_do_def play_on_result
        split: sum.splits)
next
  assume ok: "(\<forall>c. tracked w g = Some c \<longrightarrow> conn_id c \<notin> set (destroyed w))
        \<and> ready oc = None \<and> transcoder oc = None \<and> subscribed oc
        \<and> playing oc = None \<and> idle oc = None"
  then obtain c w' where "connect g ch w = (Inr c, w')"
    using connect_succeeds [of w g ch] by blast
  then show "fst (playAudioBuffer oc g ch audioData w) = Inr ()"
    using ok by (simp add: playAudioBuffer_def next_do_def play_on_succeeds)
qed

theorem channel_switch_destroys_before_join_witness:
  "(\<exists>rest. events (snd (playAudioBuffer all_ok ''guild'' ''stage'' [1, 2] sample_world)) =
       Destroy 0 # Join 1 ''guild'' ''stage'' # rest
       \<and> (\<forall>e \<in> set rest. \<not> is_join e))
   \<and> (\<exists>rest. events (snd (playAudioBuffer all_ok ''guild'' ''lobby'' [1, 2] sample_world)) =
       EntersState (ConnectionReady 0) 30000 # rest
       \<and> (\<forall>e \<in> set rest. \<not> is_join e \<and> \<not> is_destroy e))"
  using channel_switch_destroys_before_join
      [of "''guild''" sample_world "\<lparr>conn_id = 0, joinConfig_guildId = ''guild'', joinConfig_channelId = ''lobby''\<rparr>"
        "''stage''" all_ok "[1, 2]"]
    channel_switch_destroys_before_join
      [of "''guild''" sample_world "\<lparr>conn_id = 0, joinConfig_guildId = ''guild'', joinConfig_channelId = ''lobby''\<rparr>"
        "''lobby''" all_ok "[1, 2]"]
  by (simp add: sample_world_def getVoiceConnection_def all_ok_def)

theorem drain_failures_swallowed_witness:
  "fst (playAudioBuffer drain_times_out ''guild'' ''lobby'' [1, 2] sample_world) = Inr ()
   \<and> (\<exists>e. Warn ''Failed to flush silence frames:'' e
          \<in> set (events (snd (flushSilenceFrames drain_times_out sample_world))))"
  using drain_failures_swallowed
      [where oc = drain_times_out and w = sample_world and g = "''guild''" and ch = "''lobby''"
        and audioData = "[1, 2]"]
  by (simp add: drain_times_out_def all_ok_def sample_world_def)

end
